theory Spec2Isabelle
  imports Main
begin

section \<open>The caching HTTP proxy of proxyserver.py\<close>

text \<open>
  The development embeds \<^verbatim>\<open>get_cached_content\<close>, \<^verbatim>\<open>cache_content\<close> and
  \<^verbatim>\<open>handle_client\<close> of \<^verbatim>\<open>src/proxyserver.py\<close>. Sockets and the cache directory are
  the environment of the handler; they are explicit arguments here, and every call the
  handler makes on them is recorded in the value it returns.

  Bytes are a \<^typ>\<open>string\<close>, a list of 8-bit characters. A Python \<^verbatim>\<open>str\<close> is represented by
  its UTF-8 encoding, again a \<^typ>\<open>string\<close>: the texts of the handler all come from
  \<^verbatim>\<open>decode('utf-8', errors='ignore')\<close>, which yields no surrogate, and such texts
  correspond one to one to the well-formed UTF-8 byte sequences. In this representation
  \<^verbatim>\<open>decode\<close> removes the bytes that are not part of a well-formed sequence,
  \<^verbatim>\<open>encode('utf-8')\<close> is the identity, and a test or a cut at an ASCII character
  (\<^verbatim>\<open>startswith\<close>, \<^verbatim>\<open>split('/', 1)\<close>, \<^verbatim>\<open>replace\<close>, \<^verbatim>\<open>split('\r\n')\<close>) is the same test or
  cut on the bytes, since an ASCII byte never occurs inside a longer sequence.

  A \<^verbatim>\<open>recv\<close> that blocks for ever on the client socket (which has no timeout) is not
  modelled: the handler is described from the moment its first \<^verbatim>\<open>recv\<close> returns or raises.
\<close>

subsection \<open>Exceptions, sockets and the file system\<close>

text \<open>
  The handler distinguishes \<^verbatim>\<open>socket.timeout\<close> from every other \<^verbatim>\<open>Exception\<close>.
  \<open>SocketError\<close> stands for the other failures of a socket call (refused or reset
  connection, failed name resolution), \<open>FileError\<close> for a failing \<^verbatim>\<open>open\<close> or
  \<^verbatim>\<open>read\<close> on a cache file.
\<close>

datatype exn = SocketTimeout | SocketError | FileError

text \<open>
  What the peer of a socket does, read by read: each element is what one \<^verbatim>\<open>recv\<close> finds,
  either a segment of data that has arrived or a failure. The empty list is a peer that
  has closed the connection, for which \<^verbatim>\<open>recv\<close> returns \<^verbatim>\<open>b''\<close>. \<^verbatim>\<open>recv(bufsize)\<close> returns
  at most \<open>bufsize\<close> bytes of the segment. The handler calls \<^verbatim>\<open>recv\<close> once on each socket,
  so the remaining stream is not returned.
\<close>

datatype read_event = Data string | Raise exn

fun recv :: "read_event list \<Rightarrow> nat \<Rightarrow> exn + string" where
  "recv [] bufsize = Inr []"
| "recv (Data d # rest) bufsize = Inr (take bufsize d)"
| "recv (Raise e # rest) bufsize = Inl e"

text \<open>Everything the peer sends before it closes: the complete response of an origin.\<close>

fun complete_response :: "read_event list \<Rightarrow> string" where
  "complete_response [] = []"
| "complete_response (Data d # rest) = d @ complete_response rest"
| "complete_response (Raise e # rest) = []"

record client =
  client_incoming :: "read_event list"
  client_sendall_raises :: "exn option"

text \<open>
  An origin server: whether connecting and sending to it raise, and what its side of the
  connection delivers, read by read, in answer to the bytes the proxy has sent.
\<close>

record origin =
  connect_raises :: "exn option"
  sendall_raises :: "exn option"
  respond :: "string \<Rightarrow> read_event list"

text \<open>The network maps a host name to the origin server answering on its port 80.\<close>

type_synonym network = "string \<Rightarrow> origin"

text \<open>
  How \<^verbatim>\<open>with open(p, "wb") as f: f.write(content)\<close> can fail. Either \<^verbatim>\<open>open\<close> raises (no
  permission, a directory, a name the system refuses) and the file system stays as it
  was; or \<^verbatim>\<open>open\<close> has created or truncated the file and the write or the close raises
  (disk full, quota), with some first bytes of the content in the file, possibly none.
\<close>

datatype store_failure = OpenRaises | WriteRaises nat

text \<open>
  The file system maps a path to the content of the regular file there. A path with no
  regular file (absent, or a directory) is \<open>None\<close>: for both
  \<^verbatim>\<open>os.path.exists(p) and os.path.isfile(p)\<close> is false. \<open>read_raises\<close> says where
  \<^verbatim>\<open>open(p, "rb")\<close> or the read raises, \<open>write_failure\<close> where and how writing a file
  fails.
\<close>

record filesystem =
  files :: "string \<rightharpoonup> string"
  read_raises :: "string \<Rightarrow> bool"
  write_failure :: "string \<Rightarrow> store_failure option"

definition write_raises :: "filesystem \<Rightarrow> string \<Rightarrow> bool" where
  "write_raises fs p \<longleftrightarrow> write_failure fs p \<noteq> None"

subsection \<open>The string operations of Python the handler uses\<close>

definition CR :: char where "CR = CHR 0x0D"
definition LF :: char where "LF = CHR 0x0A"

text \<open>\<^verbatim>\<open>s.split('\r\n')\<close>: the pieces between the occurrences of CR LF, never an empty list.\<close>

fun split_crlf :: "string \<Rightarrow> string list" where
  "split_crlf (c # d # cs) =
     (if c = CR \<and> d = LF then [] # split_crlf cs
      else (case split_crlf (d # cs) of
              [] \<Rightarrow> [[c]]
            | l # ls \<Rightarrow> (c # l) # ls))"
| "split_crlf cs = [cs]"

definition startswith :: "string \<Rightarrow> string \<Rightarrow> bool" where
  "startswith s p \<longleftrightarrow> take (length p) s = p"

text \<open>
  The characters \<^verbatim>\<open>str.split()\<close> treats as white space, each in UTF-8: the ten ASCII ones
  (U+0009 to U+000D, U+001C to U+001F, U+0020), then U+0085, U+00A0, U+1680, U+2000 to
  U+200A, U+2028, U+2029, U+202F, U+205F and U+3000.
\<close>

definition white_space :: "string list" where
  "white_space =
     [[CHR 0x09], [CHR 0x0A], [CHR 0x0B], [CHR 0x0C], [CHR 0x0D],
      [CHR 0x1C], [CHR 0x1D], [CHR 0x1E], [CHR 0x1F], [CHR 0x20],
      [CHR 0xC2, CHR 0x85], [CHR 0xC2, CHR 0xA0], [CHR 0xE1, CHR 0x9A, CHR 0x80],
      [CHR 0xE2, CHR 0x80, CHR 0x80], [CHR 0xE2, CHR 0x80, CHR 0x81],
      [CHR 0xE2, CHR 0x80, CHR 0x82], [CHR 0xE2, CHR 0x80, CHR 0x83],
      [CHR 0xE2, CHR 0x80, CHR 0x84], [CHR 0xE2, CHR 0x80, CHR 0x85],
      [CHR 0xE2, CHR 0x80, CHR 0x86], [CHR 0xE2, CHR 0x80, CHR 0x87],
      [CHR 0xE2, CHR 0x80, CHR 0x88], [CHR 0xE2, CHR 0x80, CHR 0x89],
      [CHR 0xE2, CHR 0x80, CHR 0x8A], [CHR 0xE2, CHR 0x80, CHR 0xA8],
      [CHR 0xE2, CHR 0x80, CHR 0xA9], [CHR 0xE2, CHR 0x80, CHR 0xAF],
      [CHR 0xE2, CHR 0x81, CHR 0x9F], [CHR 0xE3, CHR 0x80, CHR 0x80]]"

text \<open>
  The number of bytes of the white-space character a text starts with, 0 when it starts
  with another character or is empty.
\<close>

definition space_length :: "string \<Rightarrow> nat" where
  "space_length s =
     (case filter (startswith s) white_space of
        [] \<Rightarrow> 0
      | w # _ \<Rightarrow> length w)"

text \<open>The characters of a text up to its first white-space character.\<close>

fun token :: "string \<Rightarrow> string" where
  "token [] = []"
| "token (c # cs) = (if 0 < space_length (c # cs) then [] else c # token cs)"

text \<open>\<^verbatim>\<open>s.split()\<close>: the maximal runs of characters that are not white space.\<close>

function py_split :: "string \<Rightarrow> string list" where
  "py_split [] = []"
| "py_split (c # cs) =
     (if 0 < space_length (c # cs) then py_split (drop (space_length (c # cs)) (c # cs))
      else token (c # cs) # py_split (drop (length (token (c # cs))) (c # cs)))"
  by pat_completeness auto
termination
  by (relation "measure length") auto

text \<open>
  \<^verbatim>\<open>s.upper()\<close>, as far as the handler depends on it. The letters a-z become A-Z. Python
  also changes letters outside ASCII, which stay as they are here; it changes none of
  them into G, E or T (the only characters outside ASCII with an ASCII upper case are
  U+0131 and U+017F, which become I and S), so the result is \<^verbatim>\<open>'GET'\<close> here exactly when it
  is in Python. The handler uses the upper-cased method for this comparison and in two
  prints, which are recorded without it.
\<close>

definition upper_char :: "char \<Rightarrow> char" where
  "upper_char c =
     (case map_of (zip ''abcdefghijklmnopqrstuvwxyz'' ''ABCDEFGHIJKLMNOPQRSTUVWXYZ'') c of
        Some u \<Rightarrow> u
      | None \<Rightarrow> c)"

definition upper :: "string \<Rightarrow> string" where
  "upper s = map upper_char s"

text \<open>\<^verbatim>\<open>url.split('/', 1)\<close>: one piece when there is no slash, otherwise two.\<close>

definition split_slash_once :: "string \<Rightarrow> string list" where
  "split_slash_once url =
     (case dropWhile (\<lambda>c. c \<noteq> CHR ''/'') url of
        [] \<Rightarrow> [url]
      | _ # rest \<Rightarrow> [takeWhile (\<lambda>c. c \<noteq> CHR ''/'') url, rest])"

text \<open>\<^verbatim>\<open>url.replace('/', '_')\<close>.\<close>

definition replace_slash :: "string \<Rightarrow> string" where
  "replace_slash url = map (\<lambda>c. if c = CHR ''/'' then CHR ''_'' else c) url"

text \<open>Lines 133-134: the plain scheme prefix is cut off.\<close>

definition strip_scheme :: "string \<Rightarrow> string" where
  "strip_scheme url =
     (if startswith url ''http://'' then drop (length ''http://'') url else url)"

text \<open>
  \<^verbatim>\<open>request_data.decode('utf-8', errors='ignore')\<close>, after the decoder of CPython. A byte
  below 0x80 is a character. A byte that cannot start a sequence (0x80 to 0xC1, 0xF5 to
  0xFF) is dropped. A start byte whose next byte is not a continuation byte, or makes the
  sequence overlong, a surrogate or larger than U+10FFFF, is dropped alone; with a wrong
  third or fourth byte the two or three bytes before it are dropped; decoding goes on
  after the dropped bytes. A sequence cut off by the end of the data is dropped.
\<close>

definition byte :: "char \<Rightarrow> nat" where
  "byte c = of_char c"

definition continuation :: "char \<Rightarrow> bool" where
  "continuation c \<longleftrightarrow> 0x80 \<le> byte c \<and> byte c < 0xC0"

fun decode :: "string \<Rightarrow> string" where
  "decode [] = []"
| "decode (b # bs) =
     (if byte b < 0x80 then b # decode bs
      else if byte b < 0xC2 then decode bs
      else if byte b < 0xE0 then
        (case bs of
           [] \<Rightarrow> []
         | b2 # r2 \<Rightarrow> if continuation b2 then b # b2 # decode r2 else decode bs)
      else if byte b < 0xF0 then
        (case bs of
           [] \<Rightarrow> []
         | b2 # r2 \<Rightarrow>
             if \<not> continuation b2
                \<or> (if byte b2 < 0xA0 then byte b = 0xE0 else byte b = 0xED)
             then decode bs
             else (case r2 of
                     [] \<Rightarrow> []
                   | b3 # r3 \<Rightarrow>
                       if continuation b3 then b # b2 # b3 # decode r3 else decode r2))
      else if byte b < 0xF5 then
        (case bs of
           [] \<Rightarrow> []
         | b2 # r2 \<Rightarrow>
             if \<not> continuation b2
                \<or> (if byte b2 < 0x90 then byte b = 0xF0 else byte b = 0xF4)
             then decode bs
             else (case r2 of
                     [] \<Rightarrow> []
                   | b3 # r3 \<Rightarrow>
                       if \<not> continuation b3 then decode r2
                       else (case r3 of
                               [] \<Rightarrow> []
                             | b4 # r4 \<Rightarrow>
                                 if continuation b4 then b # b2 # b3 # b4 # decode r4
                                 else decode r3)))
      else decode bs)"

text \<open>\<^verbatim>\<open>forward_msg.encode('utf-8')\<close>: a text is represented by its UTF-8 encoding.\<close>

definition encode :: "string \<Rightarrow> string" where
  "encode msg = msg"

text \<open>\<^verbatim>\<open>os.path.join(a, b)\<close> of posixpath.\<close>

definition os_path_join :: "string \<Rightarrow> string \<Rightarrow> string" where
  "os_path_join a b =
     (if startswith b ''/'' then b
      else if a = [] \<or> last a = CHR ''/'' then a @ b
      else a @ ''/'' @ b)"

definition CACHE_DIR :: string where
  "CACHE_DIR = ''cache''"

subsection \<open>What the operator sees\<close>

text \<open>
  One constructor for each \<^verbatim>\<open>print\<close> of the three functions, with the values it shows
  (the upper-cased method apart, see \<open>upper\<close>).
\<close>

datatype log_line =
    DebugCacheHit string
  | DebugCacheMiss string
  | DebugCachedAt string
  | DebugWaiting
  | ErrorEmptyRequest
  | DebugDecoded string
  | ErrorNoRequestLine
  | ErrorInvalidRequestLine "string list"
  | DebugParsed string
  | ErrorOnlyGet
  | ErrorHttps
  | ErrorRelativeUrl
  | DebugExtracted string string
  | DebugServingCached string
  | DebugForwarding string
  | DebugForwarded
  | ErrorEmptyResponse string
  | DebugReceived nat string
  | ErrorTimedOut
  | ErrorException exn
  | DebugClosed

subsection \<open>The cache store\<close>

text \<open>
  \<^verbatim>\<open>get_cached_content\<close> (lines 52-63). \<open>Inr None\<close> is Python's \<^verbatim>\<open>None\<close>, \<open>Inl\<close> an
  exception of \<^verbatim>\<open>open\<close> or \<^verbatim>\<open>read\<close>, raised after the hit has been printed.
\<close>

definition get_cached_content ::
  "filesystem \<Rightarrow> string \<Rightarrow> log_line list \<times> (exn + string option)" where
  "get_cached_content fs cache_key =
     (let cache_path = os_path_join CACHE_DIR cache_key in
      case files fs cache_path of
        Some cached \<Rightarrow>
          ([DebugCacheHit cache_key],
           if read_raises fs cache_path then Inl FileError else Inr (Some cached))
      | None \<Rightarrow> ([DebugCacheMiss cache_key], Inr None))"

text \<open>
  \<^verbatim>\<open>cache_content\<close> (lines 69-76). \<open>Inr\<close> is the file system after a store that went
  through; \<open>Inl\<close> is the exception of a store that failed, with the file system it leaves
  behind.
\<close>

definition cache_content ::
  "filesystem \<Rightarrow> string \<Rightarrow> string \<Rightarrow> log_line list \<times> (exn \<times> filesystem + filesystem)" where
  "cache_content fs cache_key content =
     (let cache_path = os_path_join CACHE_DIR cache_key in
      case write_failure fs cache_path of
        Some OpenRaises \<Rightarrow> ([], Inl (FileError, fs))
      | Some (WriteRaises n) \<Rightarrow>
          ([], Inl (FileError, fs\<lparr>files := (files fs)(cache_path \<mapsto> take n content)\<rparr>))
      | None \<Rightarrow>
          ([DebugCachedAt cache_path],
           Inr (fs\<lparr>files := (files fs)(cache_path \<mapsto> content)\<rparr>)))"

subsection \<open>The session handler\<close>

text \<open>
  What one call of \<^verbatim>\<open>handle_client\<close> does:
  \<^item> \<open>relayed\<close>: the argument of each \<^verbatim>\<open>client_socket.sendall\<close> call;
  \<^item> \<open>connections\<close>: host and port of each \<^verbatim>\<open>server_sock.connect\<close> call;
  \<^item> \<open>forwarded\<close>: the argument of each \<^verbatim>\<open>server_sock.sendall\<close> call;
  \<^item> \<open>received\<close>: what each \<^verbatim>\<open>server_sock.recv\<close> call returned;
  \<^item> \<open>cache\<close>: the file system afterwards;
  \<^item> \<open>log\<close>: the lines printed;
  \<^item> \<open>raised\<close>: the exception that left the \<^verbatim>\<open>try\<close> block, if any;
  \<^item> \<open>closed\<close>: whether \<^verbatim>\<open>client_socket.close()\<close> was called.
  A call is recorded whether it returns or raises.
\<close>

record outcome =
  relayed :: "string list"
  connections :: "(string \<times> nat) list"
  forwarded :: "string list"
  received :: "string list"
  cache :: filesystem
  log :: "log_line list"
  raised :: "exn option"
  closed :: bool

text \<open>Leaving the \<^verbatim>\<open>try\<close> block by \<^verbatim>\<open>return\<close> or by an exception, nothing done so far.\<close>

definition returns :: "filesystem \<Rightarrow> outcome" where
  "returns fs =
     \<lparr>relayed = [], connections = [], forwarded = [], received = [], cache = fs,
      log = [], raised = None, closed = False\<rparr>"

definition raises :: "exn \<Rightarrow> filesystem \<Rightarrow> outcome" where
  "raises e fs = (returns fs)\<lparr>raised := Some e\<rparr>"

text \<open>Lines printed before the rest of the block runs.\<close>

definition logged :: "log_line list \<Rightarrow> outcome \<Rightarrow> outcome" where
  "logged ls out = out\<lparr>log := ls @ log out\<rparr>"

text \<open>
  Lines 94-130: from the bytes received to the URL token, or \<open>None\<close> where the handler
  returns early, with the lines printed on the way.
\<close>

definition parse_request :: "string \<Rightarrow> log_line list \<times> string option" where
  "parse_request request_data =
     (if request_data = [] then ([ErrorEmptyRequest], None)
      else
        let request_text = decode request_data;
            lines = split_crlf request_text
        in if length lines < 1 \<or> lines ! 0 = []
           then ([DebugDecoded request_text, ErrorNoRequestLine], None)
           else
             let request_line = py_split (lines ! 0)
             in if length request_line < 2
                then ([DebugDecoded request_text, ErrorInvalidRequestLine request_line], None)
                else
                  let method = upper (request_line ! 0);
                      url = request_line ! 1;
                      printed = [DebugDecoded request_text, DebugParsed url]
                  in if method \<noteq> ''GET'' then (printed @ [ErrorOnlyGet], None)
                     else if startswith url ''https://'' then (printed @ [ErrorHttps], None)
                     else if startswith url ''/'' then (printed @ [ErrorRelativeUrl], None)
                     else (printed, Some url))"

text \<open>The request the proxy sends to the origin (lines 159-167).\<close>

definition forward_msg :: "string \<Rightarrow> string \<Rightarrow> string" where
  "forward_msg path hostname =
     ''GET '' @ path @ '' HTTP/1.0'' @ [CR, LF] @
     ''Host: '' @ hostname @ [CR, LF] @
     ''User-Agent: CSE310-Proxy'' @ [CR, LF] @
     ''Accept: */*'' @ [CR, LF] @
     ''Accept-Encoding: identity'' @ [CR, LF] @
     ''Connection: close'' @ [CR, LF] @
     [CR, LF]"

text \<open>
  Lines 153-183: the fetch from the origin with its single \<^verbatim>\<open>recv(4096)\<close>, the store and
  the relay.
\<close>

definition fetch_from_origin ::
  "client \<Rightarrow> network \<Rightarrow> filesystem \<Rightarrow> string \<Rightarrow> string \<Rightarrow> string \<Rightarrow> outcome" where
  "fetch_from_origin c net fs hostname path cache_key =
     logged [DebugForwarding hostname]
       (let server = net hostname;
            connected = (returns fs)\<lparr>connections := [(hostname, 80)]\<rparr>;
            sent = connected\<lparr>forwarded := [encode (forward_msg path hostname)]\<rparr>
        in case connect_raises server of
             Some e \<Rightarrow> connected\<lparr>raised := Some e\<rparr>
           | None \<Rightarrow>
               (case sendall_raises server of
                  Some e \<Rightarrow> sent\<lparr>raised := Some e\<rparr>
                | None \<Rightarrow>
                    logged [DebugForwarded]
                      (case recv (respond server (encode (forward_msg path hostname))) 4096 of
                         Inl e \<Rightarrow> sent\<lparr>raised := Some e\<rparr>
                       | Inr response_data \<Rightarrow>
                           (let got = sent\<lparr>received := [response_data]\<rparr>
                            in if response_data = []
                               then logged [ErrorEmptyResponse hostname] got
                               else
                                 (case cache_content fs cache_key response_data of
                                    (printed, Inl (e, fs')) \<Rightarrow>
                                      logged printed (got\<lparr>cache := fs', raised := Some e\<rparr>)
                                  | (printed, Inr fs') \<Rightarrow>
                                      logged
                                        (printed @
                                         [DebugReceived (length response_data) hostname])
                                        (got\<lparr>cache := fs',
                                             relayed := [response_data],
                                             raised := client_sendall_raises c\<rparr>))))))"

text \<open>Lines 132-151 and the call of the fetch: what the handler does with an accepted URL.\<close>

definition serve_url :: "client \<Rightarrow> network \<Rightarrow> filesystem \<Rightarrow> string \<Rightarrow> outcome" where
  "serve_url c net fs url0 =
     (let url = strip_scheme url0;
          parts = split_slash_once url;
          hostname = parts ! 0;
          path = (if length parts > 1 then ''/'' @ parts ! 1 else ''/'');
          cache_key = replace_slash url
      in logged [DebugExtracted hostname path]
           (case get_cached_content fs cache_key of
              (printed, Inl e) \<Rightarrow> logged printed (raises e fs)
            | (printed, Inr None) \<Rightarrow>
                logged printed (fetch_from_origin c net fs hostname path cache_key)
            | (printed, Inr (Some cached_data)) \<Rightarrow>
                logged printed
                  (if cached_data \<noteq> []
                   then logged [DebugServingCached url]
                          ((returns fs)\<lparr>relayed := [cached_data],
                                        raised := client_sendall_raises c\<rparr>)
                   else fetch_from_origin c net fs hostname path cache_key)))"

text \<open>The \<^verbatim>\<open>try\<close> block of \<^verbatim>\<open>handle_client\<close> (lines 91-183).\<close>

definition try_block :: "client \<Rightarrow> network \<Rightarrow> filesystem \<Rightarrow> outcome" where
  "try_block c net fs =
     logged [DebugWaiting]
       (case recv (client_incoming c) 4096 of
          Inl e \<Rightarrow> raises e fs
        | Inr request_data \<Rightarrow>
            (case parse_request request_data of
               (printed, None) \<Rightarrow> logged printed (returns fs)
             | (printed, Some url) \<Rightarrow> logged printed (serve_url c net fs url)))"

text \<open>
  \<^verbatim>\<open>handle_client\<close> (lines 82-191): the block, the two \<^verbatim>\<open>except\<close> clauses, which only
  print, and the \<^verbatim>\<open>finally\<close> clause, which closes the client socket.
\<close>

definition handle_client :: "client \<Rightarrow> network \<Rightarrow> filesystem \<Rightarrow> outcome" where
  "handle_client c net fs =
     (let out = try_block c net fs;
          caught = (case raised out of
                      None \<Rightarrow> []
                    | Some SocketTimeout \<Rightarrow> [ErrorTimedOut]
                    | Some e \<Rightarrow> [ErrorException e])
      in out\<lparr>log := log out @ caught @ [DebugClosed], closed := True\<rparr>)"

subsection \<open>Names for what the handler derives from a request\<close>

text \<open>
  The URL token the handler accepts from a client: the result of its one \<^verbatim>\<open>recv(4096)\<close>
  and of the checks of lines 94-130.
\<close>

definition accepted_url :: "client \<Rightarrow> string option" where
  "accepted_url c =
     (case recv (client_incoming c) 4096 of
        Inl e \<Rightarrow> None
      | Inr request_data \<Rightarrow> snd (parse_request request_data))"

text \<open>Host name, path, cache key and cache file of an accepted URL token (lines 133-144).\<close>

definition hostname_of :: "string \<Rightarrow> string" where
  "hostname_of url = split_slash_once (strip_scheme url) ! 0"

definition path_of :: "string \<Rightarrow> string" where
  "path_of url =
     (if length (split_slash_once (strip_scheme url)) > 1
      then ''/'' @ split_slash_once (strip_scheme url) ! 1 else ''/'')"

definition cache_key_of :: "string \<Rightarrow> string" where
  "cache_key_of url = replace_slash (strip_scheme url)"

definition cache_path_of :: "string \<Rightarrow> string" where
  "cache_path_of url = os_path_join CACHE_DIR (cache_key_of url)"

text \<open>What the origin of an accepted URL delivers, read by read, to the proxy's request.\<close>

definition origin_reads :: "network \<Rightarrow> string \<Rightarrow> read_event list" where
  "origin_reads net url =
     respond (net (hostname_of url)) (encode (forward_msg (path_of url) (hostname_of url)))"

text \<open>
  The accept loop of \<^verbatim>\<open>start_proxy_server\<close> (lines 207-210) on the connections accepted
  one after the other: each session starts from the cache the one before left.
\<close>

fun sessions :: "client list \<Rightarrow> network \<Rightarrow> filesystem \<Rightarrow> outcome list" where
  "sessions [] net fs = []"
| "sessions (c # cs) net fs =
     handle_client c net fs # sessions cs net (cache (handle_client c net fs))"

subsection \<open>Concrete clients, origins and caches\<close>

definition get_request :: "string \<Rightarrow> string list \<Rightarrow> string" where
  "get_request url headers =
     ''GET '' @ url @ '' HTTP/1.1'' @ [CR, LF] @
     concat (map (\<lambda>h. h @ [CR, LF]) headers) @ [CR, LF]"

definition browser :: "string \<Rightarrow> client" where
  "browser request_data =
     \<lparr>client_incoming = [Data request_data], client_sendall_raises = None\<rparr>"

definition origin_sending :: "string list \<Rightarrow> origin" where
  "origin_sending segments =
     \<lparr>connect_raises = None, sendall_raises = None,
      respond = (\<lambda>msg. map Data segments)\<rparr>"

definition empty_cache :: filesystem where
  "empty_cache =
     \<lparr>files = Map.empty, read_raises = (\<lambda>p. False), write_failure = (\<lambda>p. None)\<rparr>"

definition example_net :: network where
  "example_net =
     (\<lambda>hostname. origin_sending [''HTTP/1.0 200 OK'' @ [CR, LF, CR, LF] @ ''hello''])"

definition index_url :: string where
  "index_url = ''http://example.com/index.html''"

definition index_request :: string where
  "index_request = get_request index_url [''Host: example.com'']"

definition no_cache_request :: string where
  "no_cache_request =
     get_request index_url [''Host: example.com'', ''Cache-Control: no-cache'']"

text \<open>An origin whose response arrives in two reads, the header first and then the body.\<close>

definition two_reads_net :: network where
  "two_reads_net =
     (\<lambda>hostname. origin_sending [''HTTP/1.0 200 OK'' @ [CR, LF, CR, LF], ''hello''])"

text \<open>An origin that accepts the connection and closes it without sending anything.\<close>

definition silent_net :: network where
  "silent_net = (\<lambda>hostname. origin_sending [])"

definition not_found_net :: network where
  "not_found_net =
     (\<lambda>hostname. origin_sending [''HTTP/1.0 404 Not Found'' @ [CR, LF, CR, LF]])"

text \<open>An origin that cannot be reached.\<close>

definition unreachable_net :: network where
  "unreachable_net =
     (\<lambda>hostname. \<lparr>connect_raises = Some SocketError, sendall_raises = None,
                    respond = (\<lambda>msg. [])\<rparr>)"

definition index_path :: string where
  "index_path = ''cache/example.com_index.html''"

text \<open>A cache that holds an entry for the index page.\<close>

definition cached_index :: filesystem where
  "cached_index = empty_cache\<lparr>files := [index_path \<mapsto> ''HTTP/1.0 200 OK (cached)'']\<rparr>"

text \<open>The same cache with the entry's file not readable by the proxy.\<close>

definition unreadable_index :: filesystem where
  "unreadable_index = cached_index\<lparr>read_raises := (\<lambda>p. p = index_path)\<rparr>"

text \<open>A cache whose file for the index page exists and is empty.\<close>

definition empty_entry :: filesystem where
  "empty_entry = empty_cache\<lparr>files := [index_path \<mapsto> []]\<rparr>"

text \<open>A cache directory in which no file can be created.\<close>

definition read_only_cache :: filesystem where
  "read_only_cache = empty_cache\<lparr>write_failure := (\<lambda>p. Some OpenRaises)\<rparr>"

text \<open>A cache on a full disk: a file can be created and nothing can be written into it.\<close>

definition full_disk_cache :: filesystem where
  "full_disk_cache = empty_cache\<lparr>write_failure := (\<lambda>p. Some (WriteRaises 0))\<rparr>"

text \<open>An origin with two different pages, \<^verbatim>\<open>/a_b\<close> and every other path.\<close>

definition two_pages_net :: network where
  "two_pages_net =
     (\<lambda>hostname.
        \<lparr>connect_raises = None, sendall_raises = None,
         respond = (\<lambda>msg. if msg = encode (forward_msg ''/a_b'' hostname)
                          then [Data ''HTTP/1.0 200 OK (page a_b)'']
                          else [Data ''HTTP/1.0 200 OK (another page)''])\<rparr>)"

definition url_a_b :: string where
  "url_a_b = ''http://host/a_b''"

definition url_a_slash_b :: string where
  "url_a_slash_b = ''http://host/a/b''"

definition not_found_response :: string where
  "not_found_response = ''HTTP/1.0 404 Not Found'' @ [CR, LF, CR, LF]"

text \<open>Four requests the handler rejects, one for each check of lines 108-130.\<close>

definition connect_request :: string where
  "connect_request = ''CONNECT example.com:443 HTTP/1.1'' @ [CR, LF, CR, LF]"





text \<open>
  Everything a session does apart from what it prints: the calls on the two sockets, the
  cache afterwards and the exception that ended the block.
\<close>

definition effects ::
  "outcome \<Rightarrow> string list \<times> (string \<times> nat) list \<times> string list \<times> string list \<times> filesystem \<times> exn option" where
  "effects out =
     (relayed out, connections out, forwarded out, received out, cache out, raised out)"

section \<open>Properties\<close>

subsection \<open>The two functions of the cache store\<close>

lemma lookup_found_iff:
  "snd (get_cached_content fs cache_key) = Inr (Some cached) \<longleftrightarrow>
   files fs (os_path_join CACHE_DIR cache_key) = Some cached
   \<and> \<not> read_raises fs (os_path_join CACHE_DIR cache_key)"
  by (simp add: get_cached_content_def Let_def split: option.splits)

lemma lookup_absent_iff:
  "snd (get_cached_content fs cache_key) = Inr None \<longleftrightarrow>
   files fs (os_path_join CACHE_DIR cache_key) = None"
  by (simp add: get_cached_content_def Let_def split: option.splits)

lemma lookup_raises_iff:
  "snd (get_cached_content fs cache_key) = Inl e \<longleftrightarrow>
   e = FileError \<and> files fs (os_path_join CACHE_DIR cache_key) \<noteq> None
   \<and> read_raises fs (os_path_join CACHE_DIR cache_key)"
  by (auto simp: get_cached_content_def Let_def split: option.splits)

lemma store_succeeds_iff:
  "snd (cache_content fs cache_key content) = Inr fs' \<longleftrightarrow>
   \<not> write_raises fs (os_path_join CACHE_DIR cache_key)
   \<and> fs' = fs\<lparr>files := (files fs)(os_path_join CACHE_DIR cache_key \<mapsto> content)\<rparr>"
  by (auto simp: cache_content_def write_raises_def Let_def
           split: option.splits store_failure.splits)

lemma store_goes_through:
  assumes "\<not> write_raises fs (os_path_join CACHE_DIR cache_key)"
  shows "cache_content fs cache_key content =
           ([DebugCachedAt (os_path_join CACHE_DIR cache_key)],
            Inr (fs\<lparr>files := (files fs)(os_path_join CACHE_DIR cache_key \<mapsto> content)\<rparr>))"
  using assms by (simp add: cache_content_def write_raises_def Let_def)

text \<open>
  A store that fails raises \<open>FileError\<close>, prints nothing and leaves every other file alone;
  the file itself is as before or holds some first bytes of the content.
\<close>

lemma store_fails:
  assumes "write_raises fs (os_path_join CACHE_DIR cache_key)"
  shows "\<exists>fs'. cache_content fs cache_key content = ([], Inl (FileError, fs'))
              \<and> (fs' = fs
                 \<or> (\<exists>n. fs' = fs\<lparr>files := (files fs)(os_path_join CACHE_DIR cache_key
                                                     \<mapsto> take n content)\<rparr>))"
  using assms
  by (auto simp: cache_content_def write_raises_def Let_def
           split: option.splits store_failure.splits)

lemma store_raises_iff:
  "(\<exists>fs'. snd (cache_content fs cache_key content) = Inl (e, fs')) \<longleftrightarrow>
   e = FileError \<and> write_raises fs (os_path_join CACHE_DIR cache_key)"
  by (auto simp: cache_content_def write_raises_def Let_def
           split: option.splits store_failure.splits)

subsection \<open>The stages of the handler\<close>

lemma logged_fields:
  "relayed (logged ls out) = relayed out"
  "connections (logged ls out) = connections out"
  "forwarded (logged ls out) = forwarded out"
  "received (logged ls out) = received out"
  "cache (logged ls out) = cache out"
  "raised (logged ls out) = raised out"
  "closed (logged ls out) = closed out"
  "log (logged ls out) = ls @ log out"
  by (simp_all add: logged_def)

lemma effects_logged: "effects (logged ls out) = effects out"
  by (simp add: effects_def logged_fields)

lemma handle_client_effects: "effects (handle_client c net fs) = effects (try_block c net fs)"
  by (simp add: handle_client_def effects_def Let_def)

lemma handle_client_closed: "closed (handle_client c net fs)"
  by (simp add: handle_client_def Let_def)

lemma handle_client_log:
  "log (handle_client c net fs) =
     log (try_block c net fs) @
     (case raised (try_block c net fs) of
        None \<Rightarrow> []
      | Some SocketTimeout \<Rightarrow> [ErrorTimedOut]
      | Some e \<Rightarrow> [ErrorException e]) @
     [DebugClosed]"
  by (simp add: handle_client_def Let_def)


lemma try_block_accepted:
  assumes "accepted_url c = Some url"
  shows "effects (try_block c net fs) = effects (serve_url c net fs url)"
    and "set (log (serve_url c net fs url)) \<subseteq> set (log (try_block c net fs))"
  using assms
  by (auto simp: accepted_url_def try_block_def effects_logged logged_fields
           split: sum.splits prod.splits option.splits)

lemma serve_url_hit:
  assumes "snd (get_cached_content fs (cache_key_of url)) = Inr (Some cached)"
    and "cached \<noteq> []"
  shows "effects (serve_url c net fs url) = ([cached], [], [], [], fs, client_sendall_raises c)"
  using assms
  by (cases "get_cached_content fs (cache_key_of url)")
     (simp add: serve_url_def cache_key_of_def Let_def effects_logged,
      simp add: effects_def returns_def)

lemma serve_url_read_error:
  assumes "snd (get_cached_content fs (cache_key_of url)) = Inl e"
  shows "effects (serve_url c net fs url) = ([], [], [], [], fs, Some e)"
  using assms
  by (cases "get_cached_content fs (cache_key_of url)")
     (simp add: serve_url_def cache_key_of_def Let_def effects_logged,
      simp add: effects_def returns_def raises_def)

lemma serve_url_miss:
  assumes "snd (get_cached_content fs (cache_key_of url)) = Inr None
           \<or> snd (get_cached_content fs (cache_key_of url)) = Inr (Some [])"
  shows "effects (serve_url c net fs url) =
         effects (fetch_from_origin c net fs (hostname_of url) (path_of url) (cache_key_of url))"
    and "set (log (fetch_from_origin c net fs (hostname_of url) (path_of url) (cache_key_of url)))
         \<subseteq> set (log (serve_url c net fs url))"
  using assms
  by (cases "get_cached_content fs (cache_key_of url)";
      auto simp: serve_url_def cache_key_of_def hostname_of_def path_of_def Let_def
                 effects_logged logged_fields)+

lemma fetch_stored:
  assumes "connect_raises (net hostname) = None"
    and "sendall_raises (net hostname) = None"
    and "recv (respond (net hostname) (encode (forward_msg path hostname))) 4096 =
         Inr response_data"
    and "response_data \<noteq> []"
    and "\<not> write_raises fs (os_path_join CACHE_DIR cache_key)"
  shows "effects (fetch_from_origin c net fs hostname path cache_key) =
         ([response_data], [(hostname, 80)], [encode (forward_msg path hostname)],
          [response_data],
          fs\<lparr>files := (files fs)(os_path_join CACHE_DIR cache_key \<mapsto> response_data)\<rparr>,
          client_sendall_raises c)"
  using assms
  by (simp add: fetch_from_origin_def store_goes_through Let_def effects_logged)
     (simp add: effects_def returns_def)

lemma fetch_write_error:
  assumes "connect_raises (net hostname) = None"
    and "sendall_raises (net hostname) = None"
    and "recv (respond (net hostname) (encode (forward_msg path hostname))) 4096 =
         Inr response_data"
    and "response_data \<noteq> []"
    and "write_raises fs (os_path_join CACHE_DIR cache_key)"
  shows "relayed (fetch_from_origin c net fs hostname path cache_key) = []
         \<and> connections (fetch_from_origin c net fs hostname path cache_key) = [(hostname, 80)]
         \<and> forwarded (fetch_from_origin c net fs hostname path cache_key) =
             [encode (forward_msg path hostname)]
         \<and> received (fetch_from_origin c net fs hostname path cache_key) = [response_data]
         \<and> raised (fetch_from_origin c net fs hostname path cache_key) = Some FileError"
proof -
  from store_fails [OF assms(5), of response_data]
  obtain fs' where "cache_content fs cache_key response_data = ([], Inl (FileError, fs'))"
    by blast
  with assms(1-4) show ?thesis
    by (simp add: fetch_from_origin_def Let_def logged_fields returns_def)
qed


lemma fetch_empty:
  assumes "connect_raises (net hostname) = None"
    and "sendall_raises (net hostname) = None"
    and "recv (respond (net hostname) (encode (forward_msg path hostname))) 4096 = Inr []"
  shows "effects (fetch_from_origin c net fs hostname path cache_key) =
         ([], [(hostname, 80)], [encode (forward_msg path hostname)], [[]], fs, None)"
  using assms
  by (simp add: fetch_from_origin_def Let_def effects_logged)
     (simp add: effects_def returns_def)

lemma try_block_not_accepted:
  assumes "accepted_url c = None"
  shows "relayed (try_block c net fs) = []"
    and "connections (try_block c net fs) = []"
    and "forwarded (try_block c net fs) = []"
    and "received (try_block c net fs) = []"
    and "cache (try_block c net fs) = fs"
  using assms
  by (auto simp: accepted_url_def try_block_def logged_fields returns_def raises_def
           split: sum.splits prod.splits option.splits)

lemma lookup_result_cases:
  fixes x :: "exn + string option"
  shows "(\<exists>e. x = Inl e) \<or> (\<exists>d. x = Inr (Some d) \<and> d \<noteq> [])
         \<or> x = Inr None \<or> x = Inr (Some [])"
proof (cases x)
  case (Inl e)
  then show ?thesis by simp
next
  case (Inr found)
  then show ?thesis by (cases found) auto
qed

text \<open>
  Whatever the network and the file system do, a fetch either leaves the cache alone and
  relays nothing, or has received a non-empty response. Then it has stored exactly the
  response and handed it to the client socket, or the store has failed with some first
  bytes of the response in the file and nothing is relayed.
\<close>

lemma fetch_empty_or_stored:
  fixes c net fs hostname path cache_key
  defines "out \<equiv> fetch_from_origin c net fs hostname path cache_key"
  shows "(received out = [[]] \<longrightarrow>
            cache out = fs \<and> relayed out = [] \<and> raised out = None
            \<and> ErrorEmptyResponse hostname \<in> set (log out))
         \<and> (cache out = fs \<and> relayed out = []
            \<or> (\<exists>response_data. response_data \<noteq> [] \<and> received out = [response_data]
                  \<and> (relayed out = [response_data]
                     \<and> cache out =
                         fs\<lparr>files :=
                              (files fs)(os_path_join CACHE_DIR cache_key \<mapsto> response_data)\<rparr>
                     \<or> relayed out = []
                       \<and> (\<exists>n. cache out =
                                 fs\<lparr>files :=
                                      (files fs)(os_path_join CACHE_DIR cache_key
                                                 \<mapsto> take n response_data)\<rparr>))))"
  unfolding out_def
  by (auto simp: fetch_from_origin_def cache_content_def logged_fields returns_def Let_def
           split: option.splits sum.splits store_failure.splits)

lemma serve_url_empty_or_stored:
  fixes c net fs url
  defines "out \<equiv> serve_url c net fs url"
  shows "(received out = [[]] \<longrightarrow>
            cache out = fs \<and> relayed out = [] \<and> raised out = None
            \<and> ErrorEmptyResponse (hostname_of url) \<in> set (log out))
         \<and> (cache out = fs
            \<or> (\<exists>response_data. response_data \<noteq> [] \<and> received out = [response_data]
                  \<and> (relayed out = [response_data]
                     \<and> cache out =
                         fs\<lparr>files := (files fs)(cache_path_of url \<mapsto> response_data)\<rparr>
                     \<or> relayed out = []
                       \<and> (\<exists>n. cache out =
                                 fs\<lparr>files :=
                                      (files fs)(cache_path_of url
                                                 \<mapsto> take n response_data)\<rparr>))))"
proof -
  let ?f = "fetch_from_origin c net fs (hostname_of url) (path_of url) (cache_key_of url)"
  consider (err) e where "snd (get_cached_content fs (cache_key_of url)) = Inl e"
    | (hit) cached where
        "snd (get_cached_content fs (cache_key_of url)) = Inr (Some cached)" "cached \<noteq> []"
    | (miss) "snd (get_cached_content fs (cache_key_of url)) = Inr None
              \<or> snd (get_cached_content fs (cache_key_of url)) = Inr (Some [])"
    using lookup_result_cases [of "snd (get_cached_content fs (cache_key_of url))"] by blast
  then show ?thesis
  proof cases
    case err
    from serve_url_read_error [OF err, of c net] show ?thesis
      by (simp add: effects_def out_def)
  next
    case hit
    from serve_url_hit [OF hit, of c net] show ?thesis
      by (simp add: effects_def out_def)
  next
    case miss
    from serve_url_miss [OF miss, of c net]
    have e: "effects out = effects ?f" and l: "set (log ?f) \<subseteq> set (log out)"
      by (simp_all add: out_def)
    from e have fields: "received out = received ?f" "cache out = cache ?f"
      "relayed out = relayed ?f" "raised out = raised ?f"
      by (simp_all add: effects_def)
    from fetch_empty_or_stored [of c net fs "hostname_of url" "path_of url" "cache_key_of url"]
      l
    show ?thesis
      unfolding fields cache_path_of_def by blast
  qed
qed

lemma handle_client_accepted:
  assumes "accepted_url c = Some url"
  shows "effects (handle_client c net fs) = effects (serve_url c net fs url)"
    and "set (log (serve_url c net fs url)) \<subseteq> set (log (handle_client c net fs))"
  using try_block_accepted [OF assms, of net fs]
  by (auto simp: handle_client_effects handle_client_log)

lemma handle_client_hit:
  assumes "accepted_url c = Some url"
    and "snd (get_cached_content fs (cache_key_of url)) = Inr (Some cached)"
    and "cached \<noteq> []"
  shows "effects (handle_client c net fs) = ([cached], [], [], [], fs, client_sendall_raises c)"
  using assms by (simp add: handle_client_accepted serve_url_hit)

lemma handle_client_read_error:
  assumes "accepted_url c = Some url"
    and "snd (get_cached_content fs (cache_key_of url)) = Inl e"
  shows "effects (handle_client c net fs) = ([], [], [], [], fs, Some e)"
  using assms by (simp add: handle_client_accepted serve_url_read_error)

lemma handle_client_stored:
  assumes "accepted_url c = Some url"
    and "snd (get_cached_content fs (cache_key_of url)) = Inr None
         \<or> snd (get_cached_content fs (cache_key_of url)) = Inr (Some [])"
    and "connect_raises (net (hostname_of url)) = None"
    and "sendall_raises (net (hostname_of url)) = None"
    and "recv (origin_reads net url) 4096 = Inr response_data"
    and "response_data \<noteq> []"
    and "\<not> write_raises fs (cache_path_of url)"
  shows "effects (handle_client c net fs) =
         ([response_data], [(hostname_of url, 80)],
          [encode (forward_msg (path_of url) (hostname_of url))], [response_data],
          fs\<lparr>files := (files fs)(cache_path_of url \<mapsto> response_data)\<rparr>,
          client_sendall_raises c)"
  using assms
  by (simp add: handle_client_accepted serve_url_miss fetch_stored cache_path_of_def
                origin_reads_def)

lemma handle_client_write_error:
  assumes "accepted_url c = Some url"
    and "snd (get_cached_content fs (cache_key_of url)) = Inr None
         \<or> snd (get_cached_content fs (cache_key_of url)) = Inr (Some [])"
    and "connect_raises (net (hostname_of url)) = None"
    and "sendall_raises (net (hostname_of url)) = None"
    and "recv (origin_reads net url) 4096 = Inr response_data"
    and "response_data \<noteq> []"
    and "write_raises fs (cache_path_of url)"
  shows "relayed (handle_client c net fs) = []
         \<and> connections (handle_client c net fs) = [(hostname_of url, 80)]
         \<and> forwarded (handle_client c net fs) =
             [encode (forward_msg (path_of url) (hostname_of url))]
         \<and> received (handle_client c net fs) = [response_data]
         \<and> raised (handle_client c net fs) = Some FileError"
proof -
  let ?f = "fetch_from_origin c net fs (hostname_of url) (path_of url) (cache_key_of url)"
  from assms(1,2) have "effects (handle_client c net fs) = effects ?f"
    by (simp add: handle_client_accepted serve_url_miss)
  moreover from assms(3-7)
  have "relayed ?f = [] \<and> connections ?f = [(hostname_of url, 80)]
        \<and> forwarded ?f = [encode (forward_msg (path_of url) (hostname_of url))]
        \<and> received ?f = [response_data] \<and> raised ?f = Some FileError"
    by (intro fetch_write_error) (simp_all add: origin_reads_def cache_path_of_def)
  ultimately show ?thesis
    by (simp add: effects_def)
qed


lemma caught_is_reported:
  assumes "raised (handle_client c net fs) = Some e" and "e \<noteq> SocketTimeout"
  shows "ErrorException e \<in> set (log (handle_client c net fs))"
  using assms
  by (cases e) (simp_all add: handle_client_log handle_client_def Let_def)

lemma handle_client_empty_response:
  assumes "accepted_url c = Some url"
    and "snd (get_cached_content fs (cache_key_of url)) = Inr None
         \<or> snd (get_cached_content fs (cache_key_of url)) = Inr (Some [])"
    and "connect_raises (net (hostname_of url)) = None"
    and "sendall_raises (net (hostname_of url)) = None"
    and "recv (origin_reads net url) 4096 = Inr []"
  shows "effects (handle_client c net fs) =
         ([], [(hostname_of url, 80)],
          [encode (forward_msg (path_of url) (hostname_of url))], [[]], fs, None)"
  using assms
  by (simp add: handle_client_accepted serve_url_miss fetch_empty origin_reads_def)

lemma relayed_is_cached:
  assumes "accepted_url c = Some url"
    and "relayed (handle_client c net fs) = [response]"
    and "\<not> read_raises fs (cache_path_of url)"
  shows "snd (get_cached_content (cache (handle_client c net fs)) (cache_key_of url)) =
           Inr (Some response)
         \<and> response \<noteq> []"
proof -
  let ?f = "fetch_from_origin c net fs (hostname_of url) (path_of url) (cache_key_of url)"
  let ?out = "handle_client c net fs"
  consider (err) e where "snd (get_cached_content fs (cache_key_of url)) = Inl e"
    | (hit) cached where
        "snd (get_cached_content fs (cache_key_of url)) = Inr (Some cached)" "cached \<noteq> []"
    | (miss) "snd (get_cached_content fs (cache_key_of url)) = Inr None
              \<or> snd (get_cached_content fs (cache_key_of url)) = Inr (Some [])"
    using lookup_result_cases [of "snd (get_cached_content fs (cache_key_of url))"] by blast
  then show ?thesis
  proof cases
    case err
    from handle_client_read_error [OF assms(1) err, of net] assms(2) show ?thesis
      by (simp add: effects_def)
  next
    case hit
    from handle_client_hit [OF assms(1) hit, of net] assms(2) hit show ?thesis
      by (simp add: effects_def)
  next
    case miss
    from handle_client_accepted(1) [OF assms(1), of net fs] serve_url_miss(1) [OF miss, of c net]
    have e: "effects ?out = effects ?f" by simp
    from fetch_empty_or_stored [of c net fs "hostname_of url" "path_of url" "cache_key_of url"]
      e assms(2,3)
    show ?thesis
      by (auto simp: effects_def cache_path_of_def lookup_found_iff)
  qed
qed

text \<open>
  A non-empty, readable entry stays in the cache through every session: the handler
  writes a cache file only after a miss on that very file.
\<close>

lemma entry_persists:
  assumes "files fs p = Some cached" and "cached \<noteq> []" and "\<not> read_raises fs p"
  shows "files (cache (handle_client c net fs)) p = Some cached
         \<and> \<not> read_raises (cache (handle_client c net fs)) p"
proof (cases "accepted_url c")
  case None
  from try_block_not_accepted(5) [OF None, of net fs] handle_client_effects [of c net fs]
  have "cache (handle_client c net fs) = fs"
    by (simp add: effects_def)
  with assms show ?thesis by simp
next
  case (Some url)
  let ?out = "handle_client c net fs"
  from handle_client_accepted(1) [OF Some, of net fs]
  have "cache ?out = cache (serve_url c net fs url)"
    by (simp add: effects_def)
  with serve_url_empty_or_stored [of c net fs url]
  consider (same) "cache ?out = fs"
    | (written) response_data content where "response_data \<noteq> []"
        "received (serve_url c net fs url) = [response_data]"
        "cache ?out = fs\<lparr>files := (files fs)(cache_path_of url \<mapsto> content)\<rparr>"
    by auto
  then show ?thesis
  proof cases
    case same
    with assms show ?thesis by simp
  next
    case written
    have "cache_path_of url \<noteq> p"
    proof
      assume "cache_path_of url = p"
      with assms have "snd (get_cached_content fs (cache_key_of url)) = Inr (Some cached)"
        by (simp add: lookup_found_iff cache_path_of_def)
      from serve_url_hit [OF this assms(2), of c net] written(2) show False
        by (simp add: effects_def)
    qed
    with written(3) assms show ?thesis by simp
  qed
qed

lemma later_requests_are_hits:
  assumes "snd (get_cached_content fs (cache_key_of url)) = Inr (Some cached)"
    and "cached \<noteq> []"
  shows "\<forall>(c, out) \<in> set (zip cs (sessions cs net fs)).
           accepted_url c = Some url \<longrightarrow> relayed out = [cached] \<and> connections out = []"
  using assms
proof (induction cs arbitrary: fs)
  case Nil
  then show ?case by simp
next
  case (Cons c cs)
  let ?fs' = "cache (handle_client c net fs)"
  from Cons.prems have entry: "files fs (cache_path_of url) = Some cached"
    "\<not> read_raises fs (cache_path_of url)"
    by (simp_all add: lookup_found_iff cache_path_of_def)
  from entry_persists [OF entry(1) Cons.prems(2) entry(2), of c net]
  have "snd (get_cached_content ?fs' (cache_key_of url)) = Inr (Some cached)"
    by (simp add: lookup_found_iff cache_path_of_def)
  from Cons.IH [OF this Cons.prems(2)]
  have rest: "\<forall>(c, out) \<in> set (zip cs (sessions cs net ?fs')).
           accepted_url c = Some url \<longrightarrow> relayed out = [cached] \<and> connections out = []" .
  have "relayed (handle_client c net fs) = [cached] \<and> connections (handle_client c net fs) = []"
    if "accepted_url c = Some url"
    using handle_client_hit [OF that Cons.prems, of net] by (simp add: effects_def)
  with rest show ?case by simp
qed

lemma serve_url_same_client_behaviour:
  assumes "client_sendall_raises c1 = client_sendall_raises c2"
  shows "serve_url c1 net fs url = serve_url c2 net fs url"
  unfolding serve_url_def fetch_from_origin_def assms by (rule refl)

subsection \<open>The example requests, origins and caches\<close>

lemma index_request_accepted: "accepted_url (browser index_request) = Some index_url"
  by code_simp

lemma no_cache_request_accepted: "accepted_url (browser no_cache_request) = Some index_url"
  by code_simp

lemma index_url_parts:
  "hostname_of index_url = ''example.com''"
  "path_of index_url = ''/index.html''"
  "cache_key_of index_url = ''example.com_index.html''"
  "cache_path_of index_url = index_path"
  "os_path_join CACHE_DIR ''example.com_index.html'' = index_path"
  by (simp_all add: hostname_of_def path_of_def cache_key_of_def cache_path_of_def index_url_def
                    index_path_def strip_scheme_def startswith_def split_slash_once_def
                    replace_slash_def os_path_join_def CACHE_DIR_def)

lemma origin_sending_reads:
  "connect_raises (origin_sending segments) = None"
  "sendall_raises (origin_sending segments) = None"
  "respond (origin_sending segments) msg = map Data segments"
  by (simp_all add: origin_sending_def)

lemma lookup_examples:
  "snd (get_cached_content empty_cache (cache_key_of index_url)) = Inr None"
  "snd (get_cached_content read_only_cache (cache_key_of index_url)) = Inr None"
  "snd (get_cached_content cached_index (cache_key_of index_url)) =
     Inr (Some ''HTTP/1.0 200 OK (cached)'')"
  "snd (get_cached_content unreadable_index (cache_key_of index_url)) = Inl FileError"
  "snd (get_cached_content empty_entry (cache_key_of index_url)) = Inr (Some [])"
  "snd (get_cached_content full_disk_cache (cache_key_of index_url)) = Inr None"
  by (simp_all add: get_cached_content_def index_url_parts empty_cache_def read_only_cache_def
                    full_disk_cache_def cached_index_def unreadable_index_def empty_entry_def
                    Let_def)

lemma example_net_reads:
  "connect_raises (example_net hostname) = None"
  "sendall_raises (example_net hostname) = None"
  "recv (origin_reads example_net url) 4096 =
     Inr (''HTTP/1.0 200 OK'' @ [CR, LF, CR, LF] @ ''hello'')"
  by (simp_all add: example_net_def origin_sending_reads origin_reads_def)

lemma read_only_store_fails:
  "snd (cache_content read_only_cache cache_key content) = Inl (FileError, read_only_cache)"
  by (simp add: cache_content_def read_only_cache_def Let_def)

lemma full_disk_store_fails:
  "snd (cache_content full_disk_cache cache_key content) =
     Inl (FileError,
          full_disk_cache\<lparr>files :=
            (files full_disk_cache)(os_path_join CACHE_DIR cache_key \<mapsto> [])\<rparr>)"
  by (simp add: cache_content_def full_disk_cache_def Let_def)

lemma two_reads_net_reads:
  "connect_raises (two_reads_net hostname) = None"
  "sendall_raises (two_reads_net hostname) = None"
  "origin_reads two_reads_net url = [Data (''HTTP/1.0 200 OK'' @ [CR, LF, CR, LF]), Data ''hello'']"
  by (simp_all add: two_reads_net_def origin_sending_reads origin_reads_def)

lemma empty_cache_writable: "\<not> write_raises empty_cache p"
  by (simp add: empty_cache_def write_raises_def)

lemma not_found_net_reads:
  "connect_raises (not_found_net hostname) = None"
  "sendall_raises (not_found_net hostname) = None"
  "recv (origin_reads not_found_net url) 4096 = Inr not_found_response"
  by (simp_all add: not_found_net_def origin_sending_reads origin_reads_def
                    not_found_response_def)

lemma silent_net_reads:
  "connect_raises (silent_net hostname) = None"
  "sendall_raises (silent_net hostname) = None"
  "recv (origin_reads silent_net url) 4096 = Inr []"
  by (simp_all add: silent_net_def origin_sending_reads origin_reads_def)

lemma empty_cache_readable: "\<not> read_raises empty_cache p"
  by (simp add: empty_cache_def)

lemma first_exchange_example:
  "effects (handle_client (browser index_request) example_net empty_cache) =
     ([''HTTP/1.0 200 OK'' @ [CR, LF, CR, LF] @ ''hello''], [(''example.com'', 80)],
      [encode (forward_msg ''/index.html'' ''example.com'')],
      [''HTTP/1.0 200 OK'' @ [CR, LF, CR, LF] @ ''hello''],
      empty_cache\<lparr>files :=
        (files empty_cache)(index_path \<mapsto> ''HTTP/1.0 200 OK'' @ [CR, LF, CR, LF] @ ''hello'')\<rparr>,
      None)"
proof -
  have miss: "snd (get_cached_content empty_cache (cache_key_of index_url)) = Inr None
         \<or> snd (get_cached_content empty_cache (cache_key_of index_url)) = Inr (Some [])"
    by (simp add: lookup_examples)
  have nonempty: "''HTTP/1.0 200 OK'' @ [CR, LF, CR, LF] @ ''hello'' \<noteq> []"
    by simp
  from handle_client_stored
         [OF index_request_accepted miss example_net_reads(1) example_net_reads(2)
             example_net_reads(3) nonempty empty_cache_writable]
  show ?thesis by (simp add: index_url_parts browser_def)
qed

lemma url_a_b_accepted: "accepted_url (browser (get_request url_a_b [])) = Some url_a_b"
  by code_simp

lemma url_a_slash_b_accepted:
  "accepted_url (browser (get_request url_a_slash_b [])) = Some url_a_slash_b"
  by code_simp

lemma colliding_url_parts:
  "hostname_of url_a_b = ''host''"
  "path_of url_a_b = ''/a_b''"
  "cache_key_of url_a_b = ''host_a_b''"
  "cache_path_of url_a_b = ''cache/host_a_b''"
  "hostname_of url_a_slash_b = ''host''"
  "path_of url_a_slash_b = ''/a/b''"
  "cache_key_of url_a_slash_b = ''host_a_b''"
  "cache_path_of url_a_slash_b = ''cache/host_a_b''"
  by (simp_all add: hostname_of_def path_of_def cache_key_of_def cache_path_of_def url_a_b_def
                    url_a_slash_b_def strip_scheme_def startswith_def split_slash_once_def
                    replace_slash_def os_path_join_def CACHE_DIR_def)

lemma two_pages_net_reads:
  "connect_raises (two_pages_net hostname) = None"
  "sendall_raises (two_pages_net hostname) = None"
  "recv (origin_reads two_pages_net url_a_b) 4096 = Inr ''HTTP/1.0 200 OK (page a_b)''"
  "recv (origin_reads two_pages_net url_a_slash_b) 4096 = Inr ''HTTP/1.0 200 OK (another page)''"
  by (simp_all add: two_pages_net_def origin_reads_def colliding_url_parts encode_def
                    forward_msg_def)

text \<open>
  Bytes that are not UTF-8 vanish before the request is parsed, and a no-break space
  separates tokens like any other white space.
\<close>

lemma requests_outside_ascii:
  "accepted_url (browser (''G'' @ [CHR 0xFF] @ ''ET http://example.com/ HTTP/1.1'' @ [CR, LF])) =
     Some ''http://example.com/''"
  "accepted_url (browser (''GET h'' @ [CHR 0xFF] @ ''ttps://example.com/ HTTP/1.1'' @ [CR, LF])) =
     None"
  "accepted_url
     (browser (''GET'' @ [CHR 0xC2, CHR 0xA0] @ ''http://example.com/ HTTP/1.1'' @ [CR, LF])) =
     Some ''http://example.com/''"
  by code_simp+




subsection \<open>Requests the handler rejects\<close>





subsection \<open>The cache store: what is stored is what is looked up\<close>

text \<open>
  C6. For every key and every byte sequence, \<^verbatim>\<open>cache_content(key, B)\<close> followed by
  \<^verbatim>\<open>get_cached_content(key)\<close> returns exactly \<open>B\<close>, whenever the write and the read
  both go through without an exception of the file system.
\<close>

theorem store_then_lookup_returns_content:
  assumes "snd (cache_content fs cache_key content) = Inr fs'"
    and "\<not> read_raises fs (os_path_join CACHE_DIR cache_key)"
  shows "snd (get_cached_content fs' cache_key) = Inr (Some content)"
  using assms by (simp add: store_succeeds_iff lookup_found_iff)

theorem store_then_lookup_returns_content_witness:
  "snd (cache_content empty_cache ''example.com_index.html'' ''HTTP/1.0 200 OK'') =
     Inr (empty_cache\<lparr>files :=
            (files empty_cache)(''cache/example.com_index.html'' \<mapsto> ''HTTP/1.0 200 OK'')\<rparr>)
   \<and> \<not> read_raises empty_cache (os_path_join CACHE_DIR ''example.com_index.html'')
   \<and> snd (get_cached_content
            (empty_cache\<lparr>files :=
               (files empty_cache)(''cache/example.com_index.html'' \<mapsto> ''HTTP/1.0 200 OK'')\<rparr>)
            ''example.com_index.html'') = Inr (Some ''HTTP/1.0 200 OK'')"
proof -
  have stored:
    "snd (cache_content empty_cache ''example.com_index.html'' ''HTTP/1.0 200 OK'') =
       Inr (empty_cache\<lparr>files :=
              (files empty_cache)(''cache/example.com_index.html'' \<mapsto> ''HTTP/1.0 200 OK'')\<rparr>)"
    by (simp add: cache_content_def empty_cache_def os_path_join_def CACHE_DIR_def
                  startswith_def Let_def)
  have readable:
    "\<not> read_raises empty_cache (os_path_join CACHE_DIR ''example.com_index.html'')"
    by (simp add: empty_cache_def)
  from store_then_lookup_returns_content [OF stored readable] stored readable
  show ?thesis by simp
qed

subsection \<open>A store that fails\<close>

text \<open>
  C3, as the code has it. When the origin has delivered a non-empty response and
  \<^verbatim>\<open>cache_content\<close> raises, the exception leaves the \<^verbatim>\<open>try\<close> block before
  \<^verbatim>\<open>client_socket.sendall\<close> is reached: the bytes received are not relayed to the client.
  The failure is printed by the generic \<^verbatim>\<open>except\<close> clause and the client socket is
  closed.
\<close>

theorem failed_store_ends_session_without_relay:
  assumes "accepted_url c = Some url"
    and "snd (get_cached_content fs (cache_key_of url)) = Inr None
         \<or> snd (get_cached_content fs (cache_key_of url)) = Inr (Some [])"
    and "connect_raises (net (hostname_of url)) = None"
    and "sendall_raises (net (hostname_of url)) = None"
    and "recv (origin_reads net url) 4096 = Inr response_data"
    and "response_data \<noteq> []"
    and "snd (cache_content fs (cache_key_of url) response_data) = Inl (e, fs')"
  shows "received (handle_client c net fs) = [response_data]
         \<and> relayed (handle_client c net fs) = []
         \<and> raised (handle_client c net fs) = Some e
         \<and> ErrorException e \<in> set (log (handle_client c net fs))
         \<and> closed (handle_client c net fs)"
proof -
  from assms(7) have "\<exists>fs'. snd (cache_content fs (cache_key_of url) response_data) = Inl (e, fs')"
    by blast
  then have w: "write_raises fs (cache_path_of url)" and e: "e = FileError"
    by (simp_all add: store_raises_iff cache_path_of_def)
  have fields: "relayed (handle_client c net fs) = []
         \<and> connections (handle_client c net fs) = [(hostname_of url, 80)]
         \<and> forwarded (handle_client c net fs) =
             [encode (forward_msg (path_of url) (hostname_of url))]
         \<and> received (handle_client c net fs) = [response_data]
         \<and> raised (handle_client c net fs) = Some FileError"
    using assms(1-6) w by (rule handle_client_write_error)
  then have "ErrorException FileError \<in> set (log (handle_client c net fs))"
    by (simp add: caught_is_reported)
  with fields e show ?thesis
    by (simp add: handle_client_closed)
qed

theorem failed_store_ends_session_without_relay_witness:
  "accepted_url (browser index_request) = Some index_url
   \<and> snd (get_cached_content read_only_cache (cache_key_of index_url)) = Inr None
   \<and> recv (origin_reads example_net index_url) 4096 =
       Inr (''HTTP/1.0 200 OK'' @ [CR, LF, CR, LF] @ ''hello'')
   \<and> snd (cache_content read_only_cache (cache_key_of index_url)
            (''HTTP/1.0 200 OK'' @ [CR, LF, CR, LF] @ ''hello'')) =
       Inl (FileError, read_only_cache)
   \<and> relayed (handle_client (browser index_request) example_net read_only_cache) = []
   \<and> ErrorException FileError
       \<in> set (log (handle_client (browser index_request) example_net read_only_cache))
   \<and> closed (handle_client (browser index_request) example_net read_only_cache)
   \<and> snd (get_cached_content full_disk_cache (cache_key_of index_url)) = Inr None
   \<and> snd (cache_content full_disk_cache (cache_key_of index_url)
            (''HTTP/1.0 200 OK'' @ [CR, LF, CR, LF] @ ''hello'')) =
       Inl (FileError,
            full_disk_cache\<lparr>files := (files full_disk_cache)(index_path \<mapsto> [])\<rparr>)
   \<and> relayed (handle_client (browser index_request) example_net full_disk_cache) = []
   \<and> ErrorException FileError
       \<in> set (log (handle_client (browser index_request) example_net full_disk_cache))"
proof -
  have miss: "snd (get_cached_content read_only_cache (cache_key_of index_url)) = Inr None
         \<or> snd (get_cached_content read_only_cache (cache_key_of index_url)) = Inr (Some [])"
    by (simp add: lookup_examples)
  have miss': "snd (get_cached_content full_disk_cache (cache_key_of index_url)) = Inr None
         \<or> snd (get_cached_content full_disk_cache (cache_key_of index_url)) = Inr (Some [])"
    by (simp add: lookup_examples)
  have nonempty: "''HTTP/1.0 200 OK'' @ [CR, LF, CR, LF] @ ''hello'' \<noteq> []"
    by simp
  have full: "snd (cache_content full_disk_cache (cache_key_of index_url)
            (''HTTP/1.0 200 OK'' @ [CR, LF, CR, LF] @ ''hello'')) =
       Inl (FileError,
            full_disk_cache\<lparr>files := (files full_disk_cache)(index_path \<mapsto> [])\<rparr>)"
    by (simp add: full_disk_store_fails index_url_parts)
  from failed_store_ends_session_without_relay
         [OF index_request_accepted miss example_net_reads(1) example_net_reads(2)
             example_net_reads(3) nonempty read_only_store_fails]
       failed_store_ends_session_without_relay
         [OF index_request_accepted miss' example_net_reads(1) example_net_reads(2)
             example_net_reads(3) nonempty full]
       index_request_accepted lookup_examples(2) lookup_examples(6) example_net_reads(3)
       read_only_store_fails full
  show ?thesis by simp
qed

text \<open>
  The claim as the specification states it (the fetched bytes are still relayed) fails for
  a cache directory in which no file can be created.
\<close>

theorem failed_store_counterexample:
  "received (handle_client (browser index_request) example_net read_only_cache) =
     [''HTTP/1.0 200 OK'' @ [CR, LF, CR, LF] @ ''hello'']
   \<and> relayed (handle_client (browser index_request) example_net read_only_cache) = []"
proof -
  have miss: "snd (get_cached_content read_only_cache (cache_key_of index_url)) = Inr None
         \<or> snd (get_cached_content read_only_cache (cache_key_of index_url)) = Inr (Some [])"
    by (simp add: lookup_examples)
  have nonempty: "''HTTP/1.0 200 OK'' @ [CR, LF, CR, LF] @ ''hello'' \<noteq> []"
    by simp
  have w: "write_raises read_only_cache (cache_path_of index_url)"
    by (simp add: read_only_cache_def write_raises_def)
  from handle_client_write_error
         [OF index_request_accepted miss example_net_reads(1) example_net_reads(2)
             example_net_reads(3) nonempty w]
  show ?thesis by simp
qed

subsection \<open>A cache file that cannot be read\<close>

text \<open>
  C4, as the code has it. When \<^verbatim>\<open>get_cached_content\<close> raises, the exception leaves the
  \<^verbatim>\<open>try\<close> block: the handler makes no call on an origin socket, relays nothing, leaves the
  cache as it was, prints the failure and closes the client socket.
\<close>

theorem cache_read_error_ends_session:
  assumes "accepted_url c = Some url"
    and "snd (get_cached_content fs (cache_key_of url)) = Inl e"
  shows "connections (handle_client c net fs) = []
         \<and> forwarded (handle_client c net fs) = []
         \<and> received (handle_client c net fs) = []
         \<and> relayed (handle_client c net fs) = []
         \<and> cache (handle_client c net fs) = fs
         \<and> raised (handle_client c net fs) = Some e
         \<and> ErrorException e \<in> set (log (handle_client c net fs))
         \<and> closed (handle_client c net fs)"
proof -
  from assms(2) have e: "e \<noteq> SocketTimeout"
    by (simp add: lookup_raises_iff)
  from assms have eff: "effects (handle_client c net fs) = ([], [], [], [], fs, Some e)"
    by (rule handle_client_read_error)
  then have "raised (handle_client c net fs) = Some e"
    by (simp add: effects_def)
  with e have "ErrorException e \<in> set (log (handle_client c net fs))"
    by (simp add: caught_is_reported)
  with eff show ?thesis
    by (simp add: effects_def handle_client_closed)
qed

theorem cache_read_error_ends_session_witness:
  "accepted_url (browser index_request) = Some index_url
   \<and> snd (get_cached_content unreadable_index (cache_key_of index_url)) = Inl FileError
   \<and> connections (handle_client (browser index_request) example_net unreadable_index) = []
   \<and> relayed (handle_client (browser index_request) example_net unreadable_index) = []
   \<and> ErrorException FileError
       \<in> set (log (handle_client (browser index_request) example_net unreadable_index))
   \<and> closed (handle_client (browser index_request) example_net unreadable_index)"
  using cache_read_error_ends_session
          [OF index_request_accepted lookup_examples(4), of example_net]
        index_request_accepted lookup_examples(4)
  by simp

text \<open>
  The claim as the specification states it (a read error is treated as a miss and the
  resource is fetched) fails for a cache file that exists and cannot be read: the origin
  can be reached and is never contacted.
\<close>

theorem cache_read_error_counterexample:
  "snd (get_cached_content unreadable_index (cache_key_of index_url)) = Inl FileError
   \<and> connect_raises (example_net (hostname_of index_url)) = None
   \<and> connections (handle_client (browser index_request) example_net unreadable_index) = []
   \<and> relayed (handle_client (browser index_request) example_net unreadable_index) = []"
  using handle_client_read_error [OF index_request_accepted lookup_examples(4), of example_net]
        lookup_examples(4) example_net_reads(1)
  by (simp add: effects_def)

subsection \<open>The single read from the origin\<close>

text \<open>
  C1, as the code has it. On a miss the handler reads from the origin once, at most 4096
  bytes. What it receives, stores and relays is the first segment the origin delivers, cut
  at 4096 bytes; the rest of that segment and every later segment of the response are
  neither cached nor relayed.
\<close>

theorem only_first_read_is_cached_and_relayed:
  assumes "accepted_url c = Some url"
    and "snd (get_cached_content fs (cache_key_of url)) = Inr None
         \<or> snd (get_cached_content fs (cache_key_of url)) = Inr (Some [])"
    and "connect_raises (net (hostname_of url)) = None"
    and "sendall_raises (net (hostname_of url)) = None"
    and "origin_reads net url = Data segment # rest"
    and "segment \<noteq> []"
    and "\<not> write_raises fs (cache_path_of url)"
  shows "received (handle_client c net fs) = [take 4096 segment]
         \<and> files (cache (handle_client c net fs)) (cache_path_of url) = Some (take 4096 segment)
         \<and> relayed (handle_client c net fs) = [take 4096 segment]
         \<and> complete_response (origin_reads net url) =
             take 4096 segment @ drop 4096 segment @ complete_response rest"
proof -
  from assms(5) have r: "recv (origin_reads net url) 4096 = Inr (take 4096 segment)"
    by simp
  from assms(6) have n: "take 4096 segment \<noteq> []"
    by (cases segment) simp_all
  have "effects (handle_client c net fs) =
         ([take 4096 segment], [(hostname_of url, 80)],
          [encode (forward_msg (path_of url) (hostname_of url))], [take 4096 segment],
          fs\<lparr>files := (files fs)(cache_path_of url \<mapsto> take 4096 segment)\<rparr>,
          client_sendall_raises c)"
    using assms(1-4) r n assms(7) by (rule handle_client_stored)
  with assms(5) show ?thesis
    by (simp add: effects_def)
qed

theorem only_first_read_is_cached_and_relayed_witness:
  "accepted_url (browser index_request) = Some index_url
   \<and> snd (get_cached_content empty_cache (cache_key_of index_url)) = Inr None
   \<and> origin_reads two_reads_net index_url =
       [Data (''HTTP/1.0 200 OK'' @ [CR, LF, CR, LF]), Data ''hello'']
   \<and> relayed (handle_client (browser index_request) two_reads_net empty_cache) =
       [''HTTP/1.0 200 OK'' @ [CR, LF, CR, LF]]
   \<and> files (cache (handle_client (browser index_request) two_reads_net empty_cache)) index_path =
       Some (''HTTP/1.0 200 OK'' @ [CR, LF, CR, LF])
   \<and> complete_response (origin_reads two_reads_net index_url) =
       ''HTTP/1.0 200 OK'' @ [CR, LF, CR, LF] @ ''hello''"
proof -
  have miss: "snd (get_cached_content empty_cache (cache_key_of index_url)) = Inr None
         \<or> snd (get_cached_content empty_cache (cache_key_of index_url)) = Inr (Some [])"
    by (simp add: lookup_examples)
  have nonempty: "''HTTP/1.0 200 OK'' @ [CR, LF, CR, LF] \<noteq> []"
    by simp
  from only_first_read_is_cached_and_relayed
         [OF index_request_accepted miss two_reads_net_reads(1) two_reads_net_reads(2)
             two_reads_net_reads(3) nonempty empty_cache_writable]
       index_request_accepted lookup_examples(1) two_reads_net_reads(3)
  show ?thesis by (simp add: index_url_parts)
qed

text \<open>
  The claim as the specification states it (the complete response is accumulated over
  several reads) fails for an origin that delivers the header and the body in two reads:
  what is relayed and cached is not the complete response.
\<close>

theorem multiple_reads_counterexample:
  "relayed (handle_client (browser index_request) two_reads_net empty_cache) \<noteq>
     [complete_response (origin_reads two_reads_net index_url)]
   \<and> files (cache (handle_client (browser index_request) two_reads_net empty_cache))
        (cache_path_of index_url) \<noteq>
      Some (complete_response (origin_reads two_reads_net index_url))"
proof -
  have miss: "snd (get_cached_content empty_cache (cache_key_of index_url)) = Inr None
         \<or> snd (get_cached_content empty_cache (cache_key_of index_url)) = Inr (Some [])"
    by (simp add: lookup_examples)
  have r: "recv (origin_reads two_reads_net index_url) 4096 =
             Inr (''HTTP/1.0 200 OK'' @ [CR, LF, CR, LF])"
    by (simp add: two_reads_net_reads)
  have nonempty: "''HTTP/1.0 200 OK'' @ [CR, LF, CR, LF] \<noteq> []"
    by simp
  from handle_client_stored
         [OF index_request_accepted miss two_reads_net_reads(1) two_reads_net_reads(2)
             r nonempty empty_cache_writable]
  show ?thesis by (simp add: effects_def two_reads_net_reads)
qed

subsection \<open>A cache hit\<close>

text \<open>
  C2, as the code has it. Whenever the lookup returns a non-empty byte sequence, the
  handler hands exactly these bytes to the client socket and ends the session: it makes
  no call on an origin socket and leaves the cache as it was. In particular, after an
  exchange that relayed a response, a second request for the same URL is served the same
  bytes with no origin connection, whatever the network does by then (the cache file
  being readable).
\<close>

theorem cache_hit_is_served_without_origin:
  assumes "accepted_url c = Some url"
  shows "(snd (get_cached_content fs (cache_key_of url)) = Inr (Some cached) \<and> cached \<noteq> [] \<longrightarrow>
            relayed (handle_client c net fs) = [cached]
            \<and> connections (handle_client c net fs) = []
            \<and> forwarded (handle_client c net fs) = []
            \<and> received (handle_client c net fs) = []
            \<and> cache (handle_client c net fs) = fs
            \<and> closed (handle_client c net fs))
         \<and> (accepted_url c2 = Some url \<and> relayed (handle_client c net fs) = [response]
             \<and> \<not> read_raises fs (cache_path_of url) \<longrightarrow>
            relayed (handle_client c2 net2 (cache (handle_client c net fs))) = [response]
            \<and> connections (handle_client c2 net2 (cache (handle_client c net fs))) = [])"
proof -
  have hit: "relayed (handle_client c net fs) = [cached]
            \<and> connections (handle_client c net fs) = []
            \<and> forwarded (handle_client c net fs) = []
            \<and> received (handle_client c net fs) = []
            \<and> cache (handle_client c net fs) = fs
            \<and> closed (handle_client c net fs)"
    if "snd (get_cached_content fs (cache_key_of url)) = Inr (Some cached)" "cached \<noteq> []"
  proof -
    from assms that have "effects (handle_client c net fs) =
               ([cached], [], [], [], fs, client_sendall_raises c)"
      by (rule handle_client_hit)
    then show ?thesis
      by (simp add: effects_def handle_client_closed)
  qed
  have again: "relayed (handle_client c2 net2 (cache (handle_client c net fs))) = [response]
            \<and> connections (handle_client c2 net2 (cache (handle_client c net fs))) = []"
    if "accepted_url c2 = Some url" "relayed (handle_client c net fs) = [response]"
       "\<not> read_raises fs (cache_path_of url)"
  proof -
    from assms that(2,3)
    have "snd (get_cached_content (cache (handle_client c net fs)) (cache_key_of url)) =
            Inr (Some response)" "response \<noteq> []"
      by (simp_all add: relayed_is_cached)
    with that(1)
    have "effects (handle_client c2 net2 (cache (handle_client c net fs))) =
            ([response], [], [], [], cache (handle_client c net fs), client_sendall_raises c2)"
      by (rule handle_client_hit)
    then show ?thesis
      by (simp add: effects_def)
  qed
  from hit again show ?thesis by blast
qed

theorem cache_hit_is_served_without_origin_witness:
  "accepted_url (browser index_request) = Some index_url
   \<and> snd (get_cached_content cached_index (cache_key_of index_url)) =
       Inr (Some ''HTTP/1.0 200 OK (cached)'')
   \<and> relayed (handle_client (browser index_request) unreachable_net cached_index) =
       [''HTTP/1.0 200 OK (cached)'']
   \<and> connections (handle_client (browser index_request) unreachable_net cached_index) = []
   \<and> relayed (handle_client (browser index_request) example_net empty_cache) =
       [''HTTP/1.0 200 OK'' @ [CR, LF, CR, LF] @ ''hello'']
   \<and> \<not> read_raises empty_cache (cache_path_of index_url)
   \<and> relayed (handle_client (browser index_request) unreachable_net
                (cache (handle_client (browser index_request) example_net empty_cache))) =
       [''HTTP/1.0 200 OK'' @ [CR, LF, CR, LF] @ ''hello'']
   \<and> connections (handle_client (browser index_request) unreachable_net
                (cache (handle_client (browser index_request) example_net empty_cache))) = []"
proof -
  have first: "relayed (handle_client (browser index_request) example_net empty_cache) =
       [''HTTP/1.0 200 OK'' @ [CR, LF, CR, LF] @ ''hello'']"
    using first_exchange_example by (simp add: effects_def)
  from cache_hit_is_served_without_origin
         [OF index_request_accepted, of cached_index "''HTTP/1.0 200 OK (cached)''"
             unreachable_net "browser index_request"]
       cache_hit_is_served_without_origin
         [OF index_request_accepted, of empty_cache _ example_net "browser index_request"
             "''HTTP/1.0 200 OK'' @ [CR, LF, CR, LF] @ ''hello''" unreachable_net]
       index_request_accepted lookup_examples(3) first empty_cache_readable
  show ?thesis by simp
qed

text \<open>
  The claim as the specification states it (every key present in the store is served from
  the cache) fails for a cache file that exists and is empty: the lookup finds the key,
  the handler takes the empty bytes for a miss and fetches from the origin.
\<close>

theorem empty_entry_counterexample:
  "snd (get_cached_content empty_entry (cache_key_of index_url)) = Inr (Some [])
   \<and> connections (handle_client (browser index_request) example_net empty_entry) =
       [(''example.com'', 80)]
   \<and> relayed (handle_client (browser index_request) example_net empty_entry) =
       [''HTTP/1.0 200 OK'' @ [CR, LF, CR, LF] @ ''hello'']"
proof -
  have miss: "snd (get_cached_content empty_entry (cache_key_of index_url)) = Inr None
         \<or> snd (get_cached_content empty_entry (cache_key_of index_url)) = Inr (Some [])"
    by (simp add: lookup_examples)
  have nonempty: "''HTTP/1.0 200 OK'' @ [CR, LF, CR, LF] @ ''hello'' \<noteq> []"
    by simp
  have w: "\<not> write_raises empty_entry (cache_path_of index_url)"
    by (simp add: empty_entry_def empty_cache_def write_raises_def)
  from handle_client_stored
         [OF index_request_accepted miss example_net_reads(1) example_net_reads(2)
             example_net_reads(3) nonempty w]
       lookup_examples(5)
  show ?thesis by (simp add: effects_def index_url_parts)
qed

subsection \<open>An empty response of the origin\<close>

text \<open>
  C7. When the one read from the origin returns no bytes, the handler prints the error
  for an empty response and returns: the cache is as it was and nothing is sent to the
  client. And whatever the client, the network and the file system do, a session either
  leaves the cache as it was or has received a non-empty response from the origin and
  written the file of the requested URL: with exactly the response, which it then relays,
  or, when the store fails, with some first bytes of it and nothing relayed.
\<close>

theorem empty_response_is_never_cached:
  "(received (handle_client c net fs) = [[]] \<longrightarrow>
      cache (handle_client c net fs) = fs
      \<and> relayed (handle_client c net fs) = []
      \<and> raised (handle_client c net fs) = None
      \<and> (\<exists>url. accepted_url c = Some url
             \<and> ErrorEmptyResponse (hostname_of url) \<in> set (log (handle_client c net fs))))
   \<and> (cache (handle_client c net fs) = fs
      \<or> (\<exists>url response_data.
             accepted_url c = Some url \<and> response_data \<noteq> []
             \<and> received (handle_client c net fs) = [response_data]
             \<and> (relayed (handle_client c net fs) = [response_data]
                \<and> cache (handle_client c net fs) =
                    fs\<lparr>files := (files fs)(cache_path_of url \<mapsto> response_data)\<rparr>
                \<or> relayed (handle_client c net fs) = []
                  \<and> (\<exists>n. cache (handle_client c net fs) =
                            fs\<lparr>files := (files fs)(cache_path_of url
                                                    \<mapsto> take n response_data)\<rparr>))))"
proof (cases "accepted_url c")
  case None
  from try_block_not_accepted [OF None, of net fs]
  have "received (handle_client c net fs) = []" "cache (handle_client c net fs) = fs"
    using handle_client_effects [of c net fs] by (simp_all add: effects_def)
  then show ?thesis by simp
next
  case (Some url)
  let ?s = "serve_url c net fs url"
  from handle_client_accepted [OF Some, of net fs]
  have fields: "received (handle_client c net fs) = received ?s"
    "cache (handle_client c net fs) = cache ?s" "relayed (handle_client c net fs) = relayed ?s"
    "raised (handle_client c net fs) = raised ?s"
    and l: "set (log ?s) \<subseteq> set (log (handle_client c net fs))"
    by (simp_all add: effects_def)
  from serve_url_empty_or_stored [of c net fs url] l
  show ?thesis
    unfolding Some fields by blast
qed

theorem empty_response_is_never_cached_witness:
  "received (handle_client (browser index_request) silent_net empty_cache) = [[]]
   \<and> cache (handle_client (browser index_request) silent_net empty_cache) = empty_cache
   \<and> relayed (handle_client (browser index_request) silent_net empty_cache) = []
   \<and> ErrorEmptyResponse ''example.com''
        \<in> set (log (handle_client (browser index_request) silent_net empty_cache))"
proof -
  have miss: "snd (get_cached_content empty_cache (cache_key_of index_url)) = Inr None
         \<or> snd (get_cached_content empty_cache (cache_key_of index_url)) = Inr (Some [])"
    by (simp add: lookup_examples)
  from handle_client_empty_response
         [OF index_request_accepted miss silent_net_reads(1) silent_net_reads(2)
             silent_net_reads(3)]
  have r: "received (handle_client (browser index_request) silent_net empty_cache) = [[]]"
    by (simp add: effects_def)
  from empty_response_is_never_cached [of "browser index_request" silent_net empty_cache] r
  show ?thesis
    by (simp add: index_request_accepted index_url_parts)
qed

subsection \<open>A request that asks for a fresh copy\<close>

text \<open>
  C8. The handler reads the method and the URL of the first line and nothing else. The
  request that the module's own usage notes give for forcing a fresh copy
  (\<^verbatim>\<open>curl -H 'Cache-Control: no-cache'\<close>) has, on every network and every cache, the
  same effects as the request without the header; with an entry for the URL in the cache,
  the cached bytes are relayed and the origin is not contacted.
\<close>

theorem no_cache_header_is_ignored:
  "effects (handle_client (browser no_cache_request) net fs) =
     effects (handle_client (browser index_request) net fs)
   \<and> relayed (handle_client (browser no_cache_request) example_net cached_index) =
       [''HTTP/1.0 200 OK (cached)'']
   \<and> connections (handle_client (browser no_cache_request) example_net cached_index) = []
   \<and> received (handle_client (browser no_cache_request) example_net cached_index) = []"
proof -
  have "serve_url (browser no_cache_request) net fs index_url =
          serve_url (browser index_request) net fs index_url"
    by (rule serve_url_same_client_behaviour) (simp add: browser_def)
  then have same: "effects (handle_client (browser no_cache_request) net fs) =
                     effects (handle_client (browser index_request) net fs)"
    by (simp add: handle_client_accepted(1) no_cache_request_accepted index_request_accepted)
  have "''HTTP/1.0 200 OK (cached)'' \<noteq> []"
    by simp
  from handle_client_hit [OF no_cache_request_accepted lookup_examples(3) this, of example_net]
    same
  show ?thesis by (simp add: effects_def)
qed

subsection \<open>Two URLs with one cache key\<close>

text \<open>
  C9. The cache key is the URL without its scheme prefix, every slash replaced by an
  underscore. This is not injective: \<^verbatim>\<open>http://host/a_b\<close> and \<^verbatim>\<open>http://host/a/b\<close> are
  different URLs with the same key. On an origin that serves different pages for the two,
  a request for the second URL alone is answered with its own page, but after a request
  for the first URL it is answered from the cache, with the page of the first URL and
  with no origin connection.
\<close>

theorem distinct_urls_share_a_cache_key:
  "url_a_b \<noteq> url_a_slash_b
   \<and> cache_key_of url_a_b = cache_key_of url_a_slash_b
   \<and> relayed (handle_client (browser (get_request url_a_slash_b [])) two_pages_net empty_cache) =
       [''HTTP/1.0 200 OK (another page)'']
   \<and> map relayed
        (sessions [browser (get_request url_a_b []), browser (get_request url_a_slash_b [])]
           two_pages_net empty_cache) =
       [[''HTTP/1.0 200 OK (page a_b)''], [''HTTP/1.0 200 OK (page a_b)'']]
   \<and> map connections
        (sessions [browser (get_request url_a_b []), browser (get_request url_a_slash_b [])]
           two_pages_net empty_cache) =
       [[(''host'', 80)], []]"
proof -
  have miss1: "snd (get_cached_content empty_cache (cache_key_of url_a_b)) = Inr None
         \<or> snd (get_cached_content empty_cache (cache_key_of url_a_b)) = Inr (Some [])"
    by (simp add: lookup_absent_iff empty_cache_def)
  have miss2: "snd (get_cached_content empty_cache (cache_key_of url_a_slash_b)) = Inr None
         \<or> snd (get_cached_content empty_cache (cache_key_of url_a_slash_b)) = Inr (Some [])"
    by (simp add: lookup_absent_iff empty_cache_def)
  have n1: "''HTTP/1.0 200 OK (page a_b)'' \<noteq> []" and n2: "''HTTP/1.0 200 OK (another page)'' \<noteq> []"
    by simp_all
  let ?first = "handle_client (browser (get_request url_a_b [])) two_pages_net empty_cache"
  from handle_client_stored
         [OF url_a_b_accepted miss1 two_pages_net_reads(1) two_pages_net_reads(2)
             two_pages_net_reads(3) n1 empty_cache_writable]
  have first: "effects ?first =
     ([''HTTP/1.0 200 OK (page a_b)''], [(''host'', 80)],
      [encode (forward_msg ''/a_b'' ''host'')], [''HTTP/1.0 200 OK (page a_b)''],
      empty_cache\<lparr>files := (files empty_cache)(''cache/host_a_b'' \<mapsto> ''HTTP/1.0 200 OK (page a_b)'')\<rparr>,
      None)"
    by (simp add: colliding_url_parts browser_def)
  from handle_client_stored
         [OF url_a_slash_b_accepted miss2 two_pages_net_reads(1) two_pages_net_reads(2)
             two_pages_net_reads(4) n2 empty_cache_writable]
  have alone: "relayed (handle_client (browser (get_request url_a_slash_b [])) two_pages_net empty_cache) =
       [''HTTP/1.0 200 OK (another page)'']"
    by (simp add: effects_def)
  from first have "snd (get_cached_content (cache ?first) (cache_key_of url_a_slash_b)) =
           Inr (Some ''HTTP/1.0 200 OK (page a_b)'')"
    by (simp add: effects_def lookup_found_iff colliding_url_parts empty_cache_def
                  os_path_join_def CACHE_DIR_def startswith_def)
  from handle_client_hit [OF url_a_slash_b_accepted this n1, of two_pages_net]
  have second: "effects (handle_client (browser (get_request url_a_slash_b [])) two_pages_net (cache ?first)) =
     ([''HTTP/1.0 200 OK (page a_b)''], [], [], [], cache ?first, None)"
    by (simp add: browser_def)
  have different: "url_a_b \<noteq> url_a_slash_b"
    by (simp add: url_a_b_def url_a_slash_b_def)
  have same_key: "cache_key_of url_a_b = cache_key_of url_a_slash_b"
    by (simp add: colliding_url_parts)
  from first second have
    "map relayed
        (sessions [browser (get_request url_a_b []), browser (get_request url_a_slash_b [])]
           two_pages_net empty_cache) =
       [[''HTTP/1.0 200 OK (page a_b)''], [''HTTP/1.0 200 OK (page a_b)'']]"
    "map connections
        (sessions [browser (get_request url_a_b []), browser (get_request url_a_slash_b [])]
           two_pages_net empty_cache) =
       [[(''host'', 80)], []]"
    by (simp_all add: effects_def)
  with different same_key alone show ?thesis
    by simp
qed

subsection \<open>Responses of every status are cached\<close>

text \<open>
  C10. The handler never looks into the bytes it receives from the origin. On a miss,
  every non-empty result of the read, whatever its status line, is stored under the path
  of the URL and relayed; in every continuation of the accept loop, whatever the other
  clients ask for, each session that asks for the same URL is served exactly these bytes
  from the cache, without an origin connection (the cache file being writable and
  readable).
\<close>

theorem every_nonempty_response_is_cached_and_served:
  assumes "accepted_url c = Some url"
    and "snd (get_cached_content fs (cache_key_of url)) = Inr None
         \<or> snd (get_cached_content fs (cache_key_of url)) = Inr (Some [])"
    and "connect_raises (net (hostname_of url)) = None"
    and "sendall_raises (net (hostname_of url)) = None"
    and "recv (origin_reads net url) 4096 = Inr response_data"
    and "response_data \<noteq> []"
    and "\<not> write_raises fs (cache_path_of url)"
    and "\<not> read_raises fs (cache_path_of url)"
  shows "files (cache (handle_client c net fs)) (cache_path_of url) = Some response_data
         \<and> relayed (handle_client c net fs) = [response_data]
         \<and> (\<forall>(c', out) \<in> set (zip later (sessions later net' (cache (handle_client c net fs)))).
               accepted_url c' = Some url \<longrightarrow>
               relayed out = [response_data] \<and> connections out = [])"
proof -
  have "effects (handle_client c net fs) =
         ([response_data], [(hostname_of url, 80)],
          [encode (forward_msg (path_of url) (hostname_of url))], [response_data],
          fs\<lparr>files := (files fs)(cache_path_of url \<mapsto> response_data)\<rparr>,
          client_sendall_raises c)"
    using assms(1-7) by (rule handle_client_stored)
  then have stored: "cache (handle_client c net fs) =
                 fs\<lparr>files := (files fs)(cache_path_of url \<mapsto> response_data)\<rparr>"
    and relayed: "relayed (handle_client c net fs) = [response_data]"
    by (simp_all add: effects_def)
  with assms(8)
  have "snd (get_cached_content (cache (handle_client c net fs)) (cache_key_of url)) =
          Inr (Some response_data)"
    by (simp add: lookup_found_iff cache_path_of_def)
  from later_requests_are_hits [OF this assms(6), of later net'] stored relayed
  show ?thesis by simp
qed

theorem every_nonempty_response_is_cached_and_served_witness:
  "accepted_url (browser index_request) = Some index_url
   \<and> snd (get_cached_content empty_cache (cache_key_of index_url)) = Inr None
   \<and> recv (origin_reads not_found_net index_url) 4096 = Inr not_found_response
   \<and> not_found_response = ''HTTP/1.0 404 Not Found'' @ [CR, LF, CR, LF]
   \<and> files (cache (handle_client (browser index_request) not_found_net empty_cache)) index_path =
       Some not_found_response
   \<and> accepted_url (browser no_cache_request) = Some index_url
   \<and> relayed
       (sessions [browser connect_request, browser index_request, browser no_cache_request]
          example_net
          (cache (handle_client (browser index_request) not_found_net empty_cache)) ! 1) =
       [not_found_response]
   \<and> connections
       (sessions [browser connect_request, browser index_request, browser no_cache_request]
          example_net
          (cache (handle_client (browser index_request) not_found_net empty_cache)) ! 1) = []
   \<and> relayed
       (sessions [browser connect_request, browser index_request, browser no_cache_request]
          example_net
          (cache (handle_client (browser index_request) not_found_net empty_cache)) ! 2) =
       [not_found_response]
   \<and> connections
       (sessions [browser connect_request, browser index_request, browser no_cache_request]
          example_net
          (cache (handle_client (browser index_request) not_found_net empty_cache)) ! 2) = []"
proof -
  have miss: "snd (get_cached_content empty_cache (cache_key_of index_url)) = Inr None
         \<or> snd (get_cached_content empty_cache (cache_key_of index_url)) = Inr (Some [])"
    by (simp add: lookup_examples)
  have nonempty: "not_found_response \<noteq> []"
    by (simp add: not_found_response_def)
  from every_nonempty_response_is_cached_and_served
         [OF index_request_accepted miss not_found_net_reads(1) not_found_net_reads(2)
             not_found_net_reads(3) nonempty empty_cache_writable empty_cache_readable,
          of "[browser connect_request, browser index_request, browser no_cache_request]"
             example_net]
       index_request_accepted no_cache_request_accepted lookup_examples(1)
       not_found_net_reads(3)
  show ?thesis by (simp add: index_url_parts not_found_response_def)
qed

end
